theory Spec2Isabelle
  imports Main "HOL-Library.Word"
begin

unbundle bit_operations_syntax

section \<open>Geometry and colours of the platform layer\<close>

text \<open>
  The platform types used by the sources: \<^verbatim>\<open>SDL_Point\<close>, \<^verbatim>\<open>SDL_Rect\<close> (C \<^verbatim>\<open>int\<close> fields)
  and \<^verbatim>\<open>SDL_Color\<close> (\<^verbatim>\<open>Uint8\<close> fields). C \<^verbatim>\<open>int\<close> is a 32-bit word read as a signed
  number; \<^verbatim>\<open>char\<close> and \<^verbatim>\<open>Uint8\<close> are bytes.
\<close>

type_synonym cint = "32 word"
type_synonym byte = "8 word"

record SDL_Point =
  px :: cint
  py :: cint

record SDL_Rect =
  rx :: cint
  ry :: cint
  rw :: cint
  rh :: cint

record SDL_Color =
  cr :: byte
  cg :: byte
  cb :: byte
  ca :: byte

text \<open>
  \<^verbatim>\<open>SDL_PointInRect\<close> is the inline helper of the platform header \<^verbatim>\<open>SDL_rect.h\<close>:
  \<^verbatim>\<open>(p->x >= r->x) && (p->x < (r->x + r->w)) && (p->y >= r->y) && (p->y < (r->y + r->h))\<close>.
  The sums are 32-bit additions, the comparisons are signed.
\<close>

definition SDL_PointInRect :: "SDL_Point \<Rightarrow> SDL_Rect \<Rightarrow> bool" where
  "SDL_PointInRect p r \<longleftrightarrow>
     sint (rx r) \<le> sint (px p) \<and> sint (px p) < sint (rx r + rw r) \<and>
     sint (ry r) \<le> sint (py p) \<and> sint (py p) < sint (ry r + rh r)"

section \<open>DisplayList.hpp\<close>

text \<open>The struct \<^verbatim>\<open>DisplayList::Item\<close> and the \<^verbatim>\<open>std::vector<Item> items\<close> it is kept in.\<close>

record Item =
  rect :: SDL_Rect
  color :: SDL_Color
  content :: byte

type_synonym DisplayList = "Item list"

definition clear :: "DisplayList \<Rightarrow> DisplayList" where
  "clear items = []"

definition size_items :: "DisplayList \<Rightarrow> nat" where
  "size_items items = length items"

text \<open>\<^verbatim>\<open>insert\<close>: a fully transparent colour is not recorded.\<close>

definition insert_item :: "SDL_Rect \<Rightarrow> SDL_Color \<Rightarrow> byte \<Rightarrow> DisplayList \<Rightarrow> DisplayList" where
  "insert_item r c ch items =
     (if ca c > 0 then items @ [\<lparr>rect = r, color = c, content = ch\<rparr>] else items)"





section \<open>State.hpp\<close>

definition groupNameSeparator :: char where
  "groupNameSeparator = CHR ''/''"

datatype MouseAction = NONE | GRAB | HOLD | ACTION | CANCEL | DRAG

text \<open>The enum \<^verbatim>\<open>TextAction\<close>; its \<^verbatim>\<open>NONE\<close> is written \<open>TNONE\<close> here.\<close>

datatype TextAction = TNONE | INPUT | BACKSPACE

text \<open>
  Constants of the platform headers: \<^verbatim>\<open>SDL_TEXTINPUTEVENT_TEXT_SIZE\<close>, \<^verbatim>\<open>SDL_BUTTON_LEFT\<close>
  and the key code \<^verbatim>\<open>SDLK_BACKSPACE\<close>.
\<close>

definition SDL_TEXTINPUTEVENT_TEXT_SIZE :: nat where
  "SDL_TEXTINPUTEVENT_TEXT_SIZE = 32"

definition SDL_BUTTON_LEFT :: byte where
  "SDL_BUTTON_LEFT = 1"

definition SDLK_BACKSPACE :: cint where
  "SDLK_BACKSPACE = 8"

text \<open>
  The members of the \<^verbatim>\<open>SDL_Event\<close> union that \<^verbatim>\<open>State::event\<close> reads, by event type:
  button events carry \<^verbatim>\<open>x\<close>, \<^verbatim>\<open>y\<close> and \<^verbatim>\<open>button\<close>, motion carries \<^verbatim>\<open>x\<close> and \<^verbatim>\<open>y\<close>, text
  input carries the bytes of \<^verbatim>\<open>text.text\<close>, a key press carries \<^verbatim>\<open>keysym.sym\<close>. Every other
  event type is \<open>OtherEvent\<close>.
\<close>

datatype SDL_Event =
    MouseButtonDown cint cint byte
  | MouseMotion cint cint
  | MouseButtonUp cint cint byte
  | TextInput "byte list"
  | KeyDown cint
  | OtherEvent

text \<open>
  The data members of \<^verbatim>\<open>class State\<close>. The renderer pointer and the font are left out: no
  operation modelled here reads or writes them. \<^verbatim>\<open>tBuffer\<close> is the array of
  \<^verbatim>\<open>SDL_TEXTINPUTEVENT_TEXT_SIZE\<close> characters.
\<close>

record State =
  inFrame :: bool
  dList :: DisplayList
  mPos :: SDL_Point
  mLeftPressed :: bool
  eGrabbed :: string
  mHovering :: bool
  mGrabbing :: bool
  mReleasing :: bool
  eActive :: string
  tBuffer :: "byte list"
  tChanged :: bool
  tAction :: TextAction
  group :: string
  gGrabbed :: bool
  gActive :: bool
  ticksCount :: "32 word"

text \<open>A failed \<^verbatim>\<open>SDL_assert\<close> ends the run; it is the one error of the model.\<close>

datatype error = AssertionFailed

text \<open>
  \<^verbatim>\<open>std::string_view::substr(pos, count)\<close> and \<^verbatim>\<open>substr(pos)\<close>. Every call in the sources is
  made with \<^verbatim>\<open>pos\<close> at most the size of the view (the size tests in front of it
  short-circuit), so the \<^verbatim>\<open>std::out_of_range\<close> branch is never taken.
\<close>

definition substr :: "string \<Rightarrow> nat \<Rightarrow> nat \<Rightarrow> string" where
  "substr str pos n = take n (drop pos str)"

definition substr_from :: "string \<Rightarrow> nat \<Rightarrow> string" where
  "substr_from str pos = drop pos str"

definition beginFrame :: "32 word \<Rightarrow> State \<Rightarrow> error + State" where
  "beginFrame now s =
     (if inFrame s \<noteq> False then Inl AssertionFailed
      else Inr (s\<lparr>inFrame := True, dList := clear (dList s), mHovering := False,
                  ticksCount := now\<rparr>))"

definition endFrame :: "State \<Rightarrow> error + State" where
  "endFrame s =
     (if inFrame s \<noteq> True then Inl AssertionFailed
      else
        let s1 = s\<lparr>inFrame := False, tChanged := False, mGrabbing := False\<rparr>
        in Inr (if mReleasing s1 then s1\<lparr>eGrabbed := [], mReleasing := False\<rparr> else s1))"

definition isSameGroupId :: "State \<Rightarrow> string \<Rightarrow> string \<Rightarrow> bool" where
  "isSameGroupId s qualifiedId wid =
     (let groupSize = length (group s) in
      if length qualifiedId < groupSize + 1 then False
      else if substr qualifiedId 0 groupSize \<noteq> group s \<or>
              qualifiedId ! groupSize \<noteq> groupNameSeparator \<or>
              substr_from qualifiedId (groupSize + 1) \<noteq> wid then False
      else True)"

definition isActive :: "State \<Rightarrow> string \<Rightarrow> bool" where
  "isActive s wid = isSameGroupId s (eActive s) wid"

definition checkText :: "State \<Rightarrow> string \<Rightarrow> TextAction" where
  "checkText s wid =
     (if \<not> tChanged s \<or> \<not> isSameGroupId s (eActive s) wid then TNONE else tAction s)"

definition wantsMouse :: "State \<Rightarrow> bool" where
  "wantsMouse s \<longleftrightarrow> mHovering s \<or> eGrabbed s \<noteq> []"

definition wantsKeyboard :: "State \<Rightarrow> bool" where
  "wantsKeyboard s \<longleftrightarrow> eActive s \<noteq> []"

definition checkMouse :: "string \<Rightarrow> SDL_Rect \<Rightarrow> State \<Rightarrow> error + (MouseAction \<times> State)" where
  "checkMouse wid r s =
     (if \<not> inFrame s then Inl AssertionFailed
      else if eGrabbed s = [] then
        (if \<not> mLeftPressed s then Inr (NONE, s)
         else if SDL_PointInRect (mPos s) r \<and> \<not> mGrabbing s then
           Inr (GRAB, s\<lparr>eGrabbed := group s @ groupNameSeparator # wid,
                         eActive := group s @ groupNameSeparator # wid,
                         gGrabbed := True, gActive := True, mGrabbing := True\<rparr>)
         else if isSameGroupId s (eActive s) wid then Inr (NONE, s\<lparr>eActive := []\<rparr>)
         else Inr (NONE, s))
      else if \<not> isSameGroupId s (eGrabbed s) wid then Inr (NONE, s)
      else
        let s1 = s\<lparr>gGrabbed := True\<rparr> in
        if mLeftPressed s1 then
          (if mGrabbing s1 then Inr (GRAB, s1)
           else if \<not> SDL_PointInRect (mPos s1) r then Inr (DRAG, s1)
           else Inr (HOLD, s1))
        else
          let s2 = s1\<lparr>mReleasing := True\<rparr> in
          if \<not> SDL_PointInRect (mPos s2) r then Inr (CANCEL, s2)
          else Inr (ACTION, s2))"

text \<open>
  \<^verbatim>\<open>State::beginGroup\<close>. The display-list call \<^verbatim>\<open>dList.popClip()\<close> belongs to a revision of
  the display list that is not among the sources; it is the parameter \<open>popClip\<close>.
\<close>

definition beginGroup ::
  "(DisplayList \<Rightarrow> DisplayList) \<Rightarrow> string \<Rightarrow> SDL_Rect \<Rightarrow> State \<Rightarrow> State" where
  "beginGroup popClip gid r s0 =
     (let s = s0\<lparr>dList := popClip (dList s0)\<rparr> in
      if gid = [] then s
      else
        let idSize = length gid;
            groupSize = length (group s);
            s4 =
              (if groupSize > 0 then
                 let s1 = s\<lparr>group := group s @ [groupNameSeparator]\<rparr>;
                     s2 = (if \<not> gGrabbed s1 \<or> length (eGrabbed s1) \<le> idSize + groupSize + 1 \<or>
                              substr (eGrabbed s1) groupSize (idSize + 1) \<noteq> gid \<or>
                              eGrabbed s1 ! (groupSize + idSize + 1) \<noteq> groupNameSeparator
                           then s1\<lparr>gGrabbed := False\<rparr> else s1);
                     s3 = (if \<not> gActive s2 \<or> length (eActive s2) \<le> idSize + groupSize + 1 \<or>
                              substr (eActive s2) groupSize (idSize + 1) \<noteq> gid \<or>
                              eActive s2 ! (groupSize + idSize + 1) \<noteq> groupNameSeparator
                           then s2\<lparr>gActive := False\<rparr> else s2)
                 in s3
               else
                 let s2 = (if length (eGrabbed s) \<le> idSize \<or>
                              substr (eGrabbed s) 0 idSize \<noteq> gid \<or>
                              eGrabbed s ! idSize \<noteq> groupNameSeparator
                           then s\<lparr>gGrabbed := False\<rparr> else s\<lparr>gGrabbed := True\<rparr>);
                     s3 = (if length (eActive s2) \<le> idSize \<or>
                              substr (eActive s2) 0 idSize \<noteq> gid \<or>
                              eActive s2 ! idSize \<noteq> groupNameSeparator
                           then s2\<lparr>gActive := False\<rparr> else s2\<lparr>gActive := True\<rparr>)
                 in s3)
        in s4\<lparr>group := group s4 @ gid\<rparr>)"

text \<open>
  \<^verbatim>\<open>State::endGroup\<close>, with \<^verbatim>\<open>dList.pushClip(r)\<close> as the parameter \<open>pushClip\<close>. The three
  assertions are checked where the source has them.
\<close>

definition endGroup ::
  "(SDL_Rect \<Rightarrow> DisplayList \<Rightarrow> DisplayList) \<Rightarrow> string \<Rightarrow> SDL_Rect \<Rightarrow> State \<Rightarrow> error + State" where
  "endGroup pushClip gid r s =
     (if gid = [] then Inr (s\<lparr>dList := pushClip r (dList s)\<rparr>)
      else if length gid \<ge> length (group s) then
        (if group s \<noteq> gid then Inl AssertionFailed
         else
           let s1 = s\<lparr>group := [], gGrabbed := False, gActive := False\<rparr>;
               s2 = (if \<not> mHovering s1 \<and> SDL_PointInRect (mPos s1) r
                     then s1\<lparr>mHovering := True\<rparr> else s1)
           in Inr (s2\<lparr>dList := pushClip r (dList s2)\<rparr>))
      else
        let groupSize = length (group s);
            nextSize = groupSize - length gid - 1
        in
          if group s ! nextSize \<noteq> groupNameSeparator then Inl AssertionFailed
          else if substr_from (group s) (nextSize + 1) \<noteq> gid then Inl AssertionFailed
          else
            let s1 = s\<lparr>group := take nextSize (group s)\<rparr>;
                s2 = (if \<not> gGrabbed s1 \<and> length (eGrabbed s1) > nextSize \<and>
                         substr (eGrabbed s1) 0 nextSize = group s1 \<and>
                         eGrabbed s1 ! nextSize = groupNameSeparator
                      then s1\<lparr>gGrabbed := True\<rparr> else s1);
                s3 = (if \<not> gActive s2 \<and> length (eActive s2) > nextSize \<and>
                         substr (eActive s2) 0 nextSize = group s2 \<and>
                         eActive s2 ! nextSize = groupNameSeparator
                      then s2\<lparr>gActive := True\<rparr> else s2)
            in Inr (s3\<lparr>dList := pushClip r (dList s3)\<rparr>))"

text \<open>
  The loop of \<^verbatim>\<open>State::event\<close> over the text of a text-input event, with its two counters:
  \<open>i\<close> reads, \<open>j\<close> writes. A position of the text past the bytes given reads as 0, the
  terminator.
\<close>

definition textAt :: "byte list \<Rightarrow> nat \<Rightarrow> byte" where
  "textAt txt i = (if i < length txt then txt ! i else 0)"

function textLoop :: "byte list \<Rightarrow> nat \<Rightarrow> nat \<Rightarrow> byte list \<Rightarrow> byte list" where
  "textLoop txt i j buf =
     (if i < SDL_TEXTINPUTEVENT_TEXT_SIZE then
        let buf1 = buf[j := textAt txt i] in
        if textAt txt i = 0 then buf1
        else if textAt txt i AND 0xc0 = 0x80 then textLoop txt (i + 1) j buf1
        else if textAt txt i AND 0x80 \<noteq> 0 then textLoop txt (i + 1) (j + 1) (buf1[j := 0x0f])
        else textLoop txt (i + 1) (j + 1) buf1
      else buf)"
  by pat_completeness auto
termination
  by (relation "measure (\<lambda>(txt, i, j, buf). SDL_TEXTINPUTEVENT_TEXT_SIZE - i)") auto

fun event :: "SDL_Event \<Rightarrow> State \<Rightarrow> State" where
  "event (MouseButtonDown x y button) s =
     (let s1 = s\<lparr>mPos := \<lparr>px = x, py = y\<rparr>\<rparr> in
      if button = SDL_BUTTON_LEFT then s1\<lparr>mLeftPressed := True\<rparr> else s1)"
| "event (MouseMotion x y) s =
     (if \<not> (eGrabbed s = [] \<and> mLeftPressed s) then s\<lparr>mPos := \<lparr>px = x, py = y\<rparr>\<rparr> else s)"
| "event (MouseButtonUp x y button) s =
     s\<lparr>mPos := \<lparr>px = x, py = y\<rparr>, mLeftPressed := False\<rparr>"
| "event (TextInput txt) s =
     (if eActive s = [] then s
      else s\<lparr>tBuffer := textLoop txt 0 0 (tBuffer s), tChanged := True, tAction := INPUT\<rparr>)"
| "event (KeyDown key) s =
     (if key = SDLK_BACKSPACE then s\<lparr>tChanged := True, tAction := BACKSPACE\<rparr> else s)"
| "event OtherEvent s = s"

subsection \<open>Sequences of calls\<close>

text \<open>
  The calls a host makes on a \<^verbatim>\<open>State\<close>: frame begin and end (through \<^verbatim>\<open>Context\<close>), events,
  mouse queries, group push and pop. A sequence runs until a call fails an assertion.
\<close>

datatype call =
    BeginFrame "32 word"
  | EndFrame
  | Event SDL_Event
  | CheckMouse string SDL_Rect
  | BeginGroup string SDL_Rect
  | EndGroup string SDL_Rect

fun step ::
  "(DisplayList \<Rightarrow> DisplayList) \<Rightarrow> (SDL_Rect \<Rightarrow> DisplayList \<Rightarrow> DisplayList) \<Rightarrow>
   call \<Rightarrow> State \<Rightarrow> error + State" where
  "step popClip pushClip (BeginFrame now) s = beginFrame now s"
| "step popClip pushClip EndFrame s = endFrame s"
| "step popClip pushClip (Event ev) s = Inr (event ev s)"
| "step popClip pushClip (CheckMouse wid r) s =
     (case checkMouse wid r s of Inl e \<Rightarrow> Inl e | Inr (a, s') \<Rightarrow> Inr s')"
| "step popClip pushClip (BeginGroup gid r) s = Inr (beginGroup popClip gid r s)"
| "step popClip pushClip (EndGroup gid r) s = endGroup pushClip gid r s"

fun exec ::
  "(DisplayList \<Rightarrow> DisplayList) \<Rightarrow> (SDL_Rect \<Rightarrow> DisplayList \<Rightarrow> DisplayList) \<Rightarrow>
   call list \<Rightarrow> State \<Rightarrow> error + State" where
  "exec popClip pushClip [] s = Inr s"
| "exec popClip pushClip (c # cs) s =
     (case step popClip pushClip c s of
        Inl e \<Rightarrow> Inl e
      | Inr s' \<Rightarrow> exec popClip pushClip cs s')"

text \<open>The calls that open or close a frame; a frame is a run of calls without them.\<close>

fun frameBoundary :: "call \<Rightarrow> bool" where
  "frameBoundary (BeginFrame now) = True"
| "frameBoundary EndFrame = True"
| "frameBoundary c = False"

text \<open>
  Properly nested sequences of group calls: every \<^verbatim>\<open>beginGroup(id)\<close> is closed by an
  \<^verbatim>\<open>endGroup(id)\<close> with the same id, after the groups opened inside it are closed. The
  rectangle at the end may differ from the one at the beginning (\<^verbatim>\<open>Group::end\<close> fills in
  the automatic size).
\<close>

inductive nested :: "call list \<Rightarrow> bool" where
  nested_empty: "nested []"
| nested_group: "nested cs \<Longrightarrow> nested (BeginGroup gid r # cs @ [EndGroup gid r'])"
| nested_seq: "nested cs \<Longrightarrow> nested ds \<Longrightarrow> nested (cs @ ds)"

subsection \<open>Concrete inputs\<close>

text \<open>
  The state as the constructor leaves it (the members without an initialiser are given
  zeros), a button rectangle, and the two display-list parameters instantiated by functions
  that leave the list alone. They are the inputs of the concrete runs below.
\<close>

definition initial_state :: State where
  "initial_state =
     \<lparr>inFrame = False, dList = [], mPos = \<lparr>px = 0, py = 0\<rparr>, mLeftPressed = False,
      eGrabbed = [], mHovering = False, mGrabbing = False, mReleasing = False,
      eActive = [], tBuffer = replicate 32 0, tChanged = False, tAction = TNONE,
      group = [], gGrabbed = False, gActive = False, ticksCount = 0\<rparr>"

definition button_rect :: SDL_Rect where
  "button_rect = \<lparr>rx = 10, ry = 10, rw = 20, rh = 20\<rparr>"

definition no_popClip :: "DisplayList \<Rightarrow> DisplayList" where
  "no_popClip d = d"

definition no_pushClip :: "SDL_Rect \<Rightarrow> DisplayList \<Rightarrow> DisplayList" where
  "no_pushClip r d = d"


section \<open>Properties of the display list\<close>









section \<open>Properties of the focus state\<close>

lemma isSameGroupId_iff:
  "isSameGroupId s q wid \<longleftrightarrow> q = group s @ groupNameSeparator # wid"
proof (cases "length q < length (group s) + 1")
  case True
  then have "q \<noteq> group s @ groupNameSeparator # wid" by auto
  with True show ?thesis by (simp add: isSameGroupId_def)
next
  case False
  then have lt: "length (group s) < length q" by simp
  have "q = take (length (group s)) q @ q ! length (group s) # drop (Suc (length (group s))) q"
    using lt by (rule id_take_nth_drop)
  then have "q = group s @ groupNameSeparator # wid \<longleftrightarrow>
             take (length (group s)) q = group s \<and> q ! length (group s) = groupNameSeparator \<and>
             drop (Suc (length (group s))) q = wid"
    by (metis append_eq_append_conv length_take list.inject min.absorb4 lt nth_append_length append_eq_conv_conj drop_Suc_Cons drop_0 drop_drop add.commute plus_1_eq_Suc)
  with False show ?thesis
    by (auto simp: isSameGroupId_def substr_def substr_from_def)
qed

lemma checkMouse_inFrame:
  "checkMouse wid r s = Inr (a, s') \<Longrightarrow> inFrame s \<and> inFrame s'"
  by (auto simp: checkMouse_def Let_def split: if_splits)

lemma checkMouse_keeps_grabbed:
  "checkMouse wid r s = Inr (a, s') \<Longrightarrow> eGrabbed s \<noteq> [] \<Longrightarrow> eGrabbed s' = eGrabbed s"
  by (auto simp: checkMouse_def Let_def split: if_splits)

lemma checkMouse_GRAB_grabbed:
  "checkMouse wid r s = Inr (GRAB, s') \<Longrightarrow> eGrabbed s' = group s @ groupNameSeparator # wid"
  by (auto simp: checkMouse_def Let_def isSameGroupId_iff split: if_splits)

text \<open>
  Claim C1. After every sequence of calls, a mouse query that answers anything but
  \<open>NONE\<close> is a query whose fully qualified id (group prefix, separator, id) is the grabbed
  id, or it is the initial \<open>GRAB\<close>: nothing grabbed, the left button pressed, the pointer
  inside the rectangle and no grab yet in this frame. When another element is grabbed the
  answer is \<open>NONE\<close> whatever the rectangle.
\<close>

theorem checkMouse_only_for_grabbed:
  assumes "exec popClip pushClip calls s0 = Inr s"
    and "checkMouse wid r s = Inr (a, s')"
  shows "(a \<noteq> NONE \<longrightarrow>
            eGrabbed s = group s @ groupNameSeparator # wid \<or>
            (a = GRAB \<and> eGrabbed s = [] \<and> mLeftPressed s \<and> SDL_PointInRect (mPos s) r \<and>
             \<not> mGrabbing s)) \<and>
         (eGrabbed s \<noteq> [] \<and> eGrabbed s \<noteq> group s @ groupNameSeparator # wid \<longrightarrow> a = NONE)"
  using assms(2)
  by (auto simp: checkMouse_def Let_def isSameGroupId_iff split: if_splits)

theorem checkMouse_only_for_grabbed_witness:
  "exec no_popClip no_pushClip [Event (MouseButtonDown 15 15 1), BeginFrame 7] initial_state
     = Inr (initial_state\<lparr>inFrame := True, mPos := \<lparr>px = 15, py = 15\<rparr>, mLeftPressed := True,
                          ticksCount := 7\<rparr>) \<and>
   checkMouse ''btn'' button_rect
       (initial_state\<lparr>inFrame := True, mPos := \<lparr>px = 15, py = 15\<rparr>, mLeftPressed := True,
                      ticksCount := 7\<rparr>)
     = Inr (GRAB, initial_state\<lparr>inFrame := True, mPos := \<lparr>px = 15, py = 15\<rparr>,
                     mLeftPressed := True, ticksCount := 7, eGrabbed := ''/btn'',
                     eActive := ''/btn'', gGrabbed := True, gActive := True,
                     mGrabbing := True\<rparr>) \<and>
   SDL_PointInRect \<lparr>px = 15, py = 15\<rparr> button_rect"
proof -
  let ?s = "initial_state\<lparr>inFrame := True, mPos := \<lparr>px = 15, py = 15\<rparr>, mLeftPressed := True,
                          ticksCount := 7\<rparr>"
  let ?s' = "initial_state\<lparr>inFrame := True, mPos := \<lparr>px = 15, py = 15\<rparr>,
                     mLeftPressed := True, ticksCount := 7, eGrabbed := ''/btn'',
                     eActive := ''/btn'', gGrabbed := True, gActive := True,
                     mGrabbing := True\<rparr>"
  have pir: "SDL_PointInRect \<lparr>px = 15, py = 15\<rparr> button_rect"
    by (simp add: SDL_PointInRect_def button_rect_def)
  have run: "exec no_popClip no_pushClip [Event (MouseButtonDown 15 15 1), BeginFrame 7]
               initial_state = Inr ?s"
    by (simp add: initial_state_def beginFrame_def SDL_BUTTON_LEFT_def clear_def)
  have q: "checkMouse ''btn'' button_rect ?s = Inr (GRAB, ?s')"
    using pir by (simp add: checkMouse_def initial_state_def groupNameSeparator_def)
  from checkMouse_only_for_grabbed [OF run q] pir run q show ?thesis
    by simp
qed


text \<open>
  Claim C3. A query in a frame with nothing grabbed, the left button pressed, the pointer
  inside the rectangle and the per-frame grabbing flag clear answers \<open>GRAB\<close>; afterwards
  the grabbed id and the active id are the group prefix, the separator and the id, both
  group flags are set and the grabbing flag is set.
\<close>

theorem checkMouse_initial_grab:
  assumes "inFrame s" and "eGrabbed s = []" and "mLeftPressed s"
    and "SDL_PointInRect (mPos s) r" and "\<not> mGrabbing s"
  shows "\<exists>s'. checkMouse wid r s = Inr (GRAB, s') \<and>
              eGrabbed s' = group s @ groupNameSeparator # wid \<and>
              eActive s' = group s @ groupNameSeparator # wid \<and>
              gGrabbed s' \<and> gActive s' \<and> mGrabbing s'"
  using assms by (simp add: checkMouse_def)

theorem checkMouse_initial_grab_witness:
  "\<exists>s'. checkMouse ''btn'' button_rect
           (initial_state\<lparr>inFrame := True, mPos := \<lparr>px = 15, py = 15\<rparr>, mLeftPressed := True,
                          group := ''panel''\<rparr>) = Inr (GRAB, s') \<and>
        eGrabbed s' = ''panel/btn'' \<and> eActive s' = ''panel/btn'' \<and>
        gGrabbed s' \<and> gActive s' \<and> mGrabbing s'"
  using checkMouse_initial_grab [of "initial_state\<lparr>inFrame := True,
      mPos := \<lparr>px = 15, py = 15\<rparr>, mLeftPressed := True, group := ''panel''\<rparr>" button_rect "''btn''"]
  by (simp add: initial_state_def button_rect_def SDL_PointInRect_def groupNameSeparator_def)

text \<open>
  Claim C4. A query for the grabbed element with the button released answers \<open>ACTION\<close>
  when the pointer is inside the rectangle and \<open>CANCEL\<close> otherwise. The query leaves the
  grabbed id as it is: it sets the releasing flag (and re-asserts the group flag
  \<open>gGrabbed\<close>), nothing else. No query changes a grabbed id that is set. \<open>endFrame\<close>
  clears the grabbed id exactly when the releasing flag is set.
\<close>

theorem checkMouse_release:
  assumes "inFrame s" and "eGrabbed s = group s @ groupNameSeparator # wid"
    and "\<not> mLeftPressed s"
  shows "checkMouse wid r s =
           Inr (if SDL_PointInRect (mPos s) r then ACTION else CANCEL,
                s\<lparr>gGrabbed := True, mReleasing := True\<rparr>) \<and>
         eGrabbed (s\<lparr>gGrabbed := True, mReleasing := True\<rparr>) = eGrabbed s \<and>
         (\<exists>t. endFrame (s\<lparr>gGrabbed := True, mReleasing := True\<rparr>) = Inr t \<and>
              eGrabbed t = [] \<and> \<not> mReleasing t) \<and>
         (\<forall>u. inFrame u \<longrightarrow>
              (\<exists>t. endFrame u = Inr t \<and>
                   eGrabbed t = (if mReleasing u then [] else eGrabbed u))) \<and>
         (\<forall>u wid' r' a u'. eGrabbed u \<noteq> [] \<and> checkMouse wid' r' u = Inr (a, u') \<longrightarrow>
              eGrabbed u' = eGrabbed u)"
proof -
  have query: "checkMouse wid r s =
           Inr (if SDL_PointInRect (mPos s) r then ACTION else CANCEL,
                s\<lparr>gGrabbed := True, mReleasing := True\<rparr>)"
    using assms by (simp add: checkMouse_def isSameGroupId_iff Let_def)
  have finish: "\<exists>t. endFrame (s\<lparr>gGrabbed := True, mReleasing := True\<rparr>) = Inr t \<and>
              eGrabbed t = [] \<and> \<not> mReleasing t"
    using assms(1) by (simp add: endFrame_def Let_def)
  have exact: "\<forall>u. inFrame u \<longrightarrow>
              (\<exists>t. endFrame u = Inr t \<and>
                   eGrabbed t = (if mReleasing u then [] else eGrabbed u))"
    by (simp add: endFrame_def Let_def)
  have kept: "\<forall>u wid' r' a u'. eGrabbed u \<noteq> [] \<and> checkMouse wid' r' u = Inr (a, u') \<longrightarrow>
              eGrabbed u' = eGrabbed u"
    using checkMouse_keeps_grabbed by blast
  from query finish exact kept show ?thesis by simp
qed

theorem checkMouse_release_witness:
  "checkMouse ''btn'' button_rect
     (initial_state\<lparr>inFrame := True, mPos := \<lparr>px = 5, py = 5\<rparr>, eGrabbed := ''/btn'',
                    eActive := ''/btn''\<rparr>)
   = Inr (CANCEL, initial_state\<lparr>inFrame := True, mPos := \<lparr>px = 5, py = 5\<rparr>,
                    eGrabbed := ''/btn'', eActive := ''/btn'', gGrabbed := True,
                    mReleasing := True\<rparr>) \<and>
   (\<exists>t. endFrame (initial_state\<lparr>inFrame := True, mPos := \<lparr>px = 5, py = 5\<rparr>,
                    eGrabbed := ''/btn'', eActive := ''/btn'', gGrabbed := True,
                    mReleasing := True\<rparr>) = Inr t \<and> eGrabbed t = [] \<and> \<not> mReleasing t)"
  using checkMouse_release [of "initial_state\<lparr>inFrame := True, mPos := \<lparr>px = 5, py = 5\<rparr>,
      eGrabbed := ''/btn'', eActive := ''/btn''\<rparr>" "''btn''" button_rect]
  by (simp add: initial_state_def button_rect_def SDL_PointInRect_def groupNameSeparator_def)


text \<open>
  Claim C5, as the code has it. With nothing grabbed and the left button not pressed, a
  query answers \<open>NONE\<close> and leaves the whole state, the active id included, as it was. The
  active id is cleared by the query made with nothing grabbed and the button pressed that
  does not grab (the pointer is outside the rectangle, or a grab already occurred in this
  frame), when the active id is the fully qualified form of the id: an element stays active
  until a click lands outside of it.
\<close>

theorem checkMouse_nothing_grabbed:
  assumes "inFrame s" and "eGrabbed s = []"
  shows "(\<not> mLeftPressed s \<longrightarrow> checkMouse wid r s = Inr (NONE, s)) \<and>
         (mLeftPressed s \<and> \<not> (SDL_PointInRect (mPos s) r \<and> \<not> mGrabbing s) \<and>
          eActive s = group s @ groupNameSeparator # wid \<longrightarrow>
            checkMouse wid r s = Inr (NONE, s\<lparr>eActive := []\<rparr>))"
  using assms by (auto simp: checkMouse_def isSameGroupId_iff)

theorem checkMouse_nothing_grabbed_witness:
  "checkMouse ''btn'' button_rect
     (initial_state\<lparr>inFrame := True, mLeftPressed := True, mPos := \<lparr>px = 5, py = 5\<rparr>,
                    eActive := ''/btn''\<rparr>)
   = Inr (NONE, initial_state\<lparr>inFrame := True, mLeftPressed := True,
                   mPos := \<lparr>px = 5, py = 5\<rparr>, eActive := []\<rparr>) \<and>
   checkMouse ''btn'' button_rect (initial_state\<lparr>inFrame := True, eActive := ''/btn''\<rparr>)
   = Inr (NONE, initial_state\<lparr>inFrame := True, eActive := ''/btn''\<rparr>)"
  using checkMouse_nothing_grabbed [of "initial_state\<lparr>inFrame := True, mLeftPressed := True,
      mPos := \<lparr>px = 5, py = 5\<rparr>, eActive := ''/btn''\<rparr>" "''btn''" button_rect]
    checkMouse_nothing_grabbed [of "initial_state\<lparr>inFrame := True, eActive := ''/btn''\<rparr>"
      "''btn''" button_rect]
  by (simp add: initial_state_def button_rect_def SDL_PointInRect_def groupNameSeparator_def)

text \<open>
  The claim as the specification words it fails: the element \<open>btn\<close> is active, nothing is
  grabbed, the button is not pressed; the query answers \<open>NONE\<close> and \<open>btn\<close> is still active.
\<close>

theorem checkMouse_unpressed_keeps_active:
  "eGrabbed (initial_state\<lparr>inFrame := True, eActive := ''/btn''\<rparr>) = [] \<and>
   \<not> mLeftPressed (initial_state\<lparr>inFrame := True, eActive := ''/btn''\<rparr>) \<and>
   eActive (initial_state\<lparr>inFrame := True, eActive := ''/btn''\<rparr>)
     = group (initial_state\<lparr>inFrame := True, eActive := ''/btn''\<rparr>)
       @ groupNameSeparator # ''btn'' \<and>
   checkMouse ''btn'' button_rect (initial_state\<lparr>inFrame := True, eActive := ''/btn''\<rparr>)
     = Inr (NONE, initial_state\<lparr>inFrame := True, eActive := ''/btn''\<rparr>) \<and>
   eActive (initial_state\<lparr>inFrame := True, eActive := ''/btn''\<rparr>) \<noteq> []"
  by (simp add: checkMouse_def initial_state_def groupNameSeparator_def)

text \<open>
  Claim C6, as the code has it. A motion event leaves the stored pointer position alone
  exactly when nothing is grabbed and the left button is held: the position of the press is
  kept until an element grabs it. In every other configuration, an element grabbed with the
  button held included, the position becomes the event's position. A motion event changes
  no other member of the state.
\<close>

theorem motion_updates_position:
  "mPos (event (MouseMotion x y) s)
     = (if eGrabbed s = [] \<and> mLeftPressed s then mPos s else \<lparr>px = x, py = y\<rparr>) \<and>
   event (MouseMotion x y) s = s\<lparr>mPos := mPos (event (MouseMotion x y) s)\<rparr> \<and>
   (eGrabbed s \<noteq> [] \<and> mLeftPressed s \<longrightarrow> mPos (event (MouseMotion x y) s) = \<lparr>px = x, py = y\<rparr>)"
  by simp

theorem motion_updates_position_witness:
  "mPos (event (MouseMotion 5 5)
          (initial_state\<lparr>mLeftPressed := True, mPos := \<lparr>px = 15, py = 15\<rparr>\<rparr>))
     = \<lparr>px = 15, py = 15\<rparr> \<and>
   mPos (event (MouseMotion 5 5)
          (initial_state\<lparr>mLeftPressed := True, mPos := \<lparr>px = 15, py = 15\<rparr>,
                         eGrabbed := ''/btn''\<rparr>))
     = \<lparr>px = 5, py = 5\<rparr>"
  using motion_updates_position [of 5 5
      "initial_state\<lparr>mLeftPressed := True, mPos := \<lparr>px = 15, py = 15\<rparr>\<rparr>"]
    motion_updates_position [of 5 5
      "initial_state\<lparr>mLeftPressed := True, mPos := \<lparr>px = 15, py = 15\<rparr>, eGrabbed := ''/btn''\<rparr>"]
  by (simp add: initial_state_def)

text \<open>
  The claim as the specification words it fails in both halves: with \<open>btn\<close> grabbed and the
  button held, a motion to (5, 5) moves the stored pointer away from (15, 15); with nothing
  grabbed and the button held, the same motion leaves it at (15, 15).
\<close>

theorem motion_while_grabbed_moves_pointer:
  "eGrabbed (initial_state\<lparr>mLeftPressed := True, mPos := \<lparr>px = 15, py = 15\<rparr>,
                           eGrabbed := ''/btn''\<rparr>) \<noteq> [] \<and>
   mLeftPressed (initial_state\<lparr>mLeftPressed := True, mPos := \<lparr>px = 15, py = 15\<rparr>,
                               eGrabbed := ''/btn''\<rparr>) \<and>
   mPos (event (MouseMotion 5 5)
          (initial_state\<lparr>mLeftPressed := True, mPos := \<lparr>px = 15, py = 15\<rparr>,
                         eGrabbed := ''/btn''\<rparr>))
     \<noteq> mPos (initial_state\<lparr>mLeftPressed := True, mPos := \<lparr>px = 15, py = 15\<rparr>,
                            eGrabbed := ''/btn''\<rparr>) \<and>
   mPos (event (MouseMotion 5 5)
          (initial_state\<lparr>mLeftPressed := True, mPos := \<lparr>px = 15, py = 15\<rparr>\<rparr>))
     = mPos (initial_state\<lparr>mLeftPressed := True, mPos := \<lparr>px = 15, py = 15\<rparr>\<rparr>)"
  by (simp add: initial_state_def)

text \<open>
  Claim C10. A text-input event fed while no element is active leaves the whole state as
  it was: the text buffer, the text-changed flag and the text action keep their values.
\<close>

theorem text_input_dropped_without_active:
  assumes "eActive s = []"
  shows "event (TextInput txt) s = s \<and>
         tBuffer (event (TextInput txt) s) = tBuffer s \<and>
         tChanged (event (TextInput txt) s) = tChanged s \<and>
         tAction (event (TextInput txt) s) = tAction s"
  using assms by simp

theorem text_input_dropped_without_active_witness:
  "eActive (initial_state\<lparr>tChanged := True, tAction := BACKSPACE\<rparr>) = [] \<and>
   event (TextInput [0x68, 0x69, 0]) (initial_state\<lparr>tChanged := True, tAction := BACKSPACE\<rparr>)
     = initial_state\<lparr>tChanged := True, tAction := BACKSPACE\<rparr>"
  using text_input_dropped_without_active
    [of "initial_state\<lparr>tChanged := True, tAction := BACKSPACE\<rparr>" "[0x68, 0x69, 0]"]
  by (simp add: initial_state_def)

lemma beginGroup_nested_clears_flags:
  assumes "group s \<noteq> []" and "gid \<noteq> []"
  shows "\<not> gGrabbed (beginGroup popClip gid r s) \<and> \<not> gActive (beginGroup popClip gid r s)"
proof -
  have "substr q (length (group s)) (length gid + 1) \<noteq> gid"
    if "\<not> length q \<le> length gid + length (group s) + 1" for q
  proof -
    from that have "length (substr q (length (group s)) (length gid + 1)) = length gid + 1"
      by (simp add: substr_def)
    then show ?thesis by auto
  qed
  from this [of "eGrabbed s"] this [of "eActive s"] assms show ?thesis
    by (auto simp: beginGroup_def Let_def)
qed

text \<open>
  Claim C7, evaluated on the code. The grabbed id is \<open>panel/list/item2\<close> and no group is
  open. The flag \<open>gGrabbed\<close> is set after entering \<open>panel\<close>, cleared after entering
  \<open>list\<close>, set again after leaving \<open>list\<close> and cleared after leaving \<open>panel\<close>. Inside a
  group \<^verbatim>\<open>beginGroup\<close> compares \<^verbatim>\<open>substr(groupSize, idSize + 1)\<close>, which starts at the
  separator and is one character longer than the id, with the id; the two are never equal,
  so the flag of a nested group is always cleared.
\<close>

theorem nested_group_flag_scenario:
  "(\<exists>t. exec popClip pushClip [BeginGroup ''panel'' button_rect]
           (initial_state\<lparr>inFrame := True, eGrabbed := ''panel/list/item2''\<rparr>) = Inr t \<and>
        group t = ''panel'' \<and> gGrabbed t) \<and>
   (\<exists>t. exec popClip pushClip [BeginGroup ''panel'' button_rect, BeginGroup ''list'' button_rect]
           (initial_state\<lparr>inFrame := True, eGrabbed := ''panel/list/item2''\<rparr>) = Inr t \<and>
        group t = ''panel/list'' \<and> \<not> gGrabbed t) \<and>
   (\<exists>t. exec popClip pushClip [BeginGroup ''panel'' button_rect, BeginGroup ''list'' button_rect,
                               EndGroup ''list'' button_rect]
           (initial_state\<lparr>inFrame := True, eGrabbed := ''panel/list/item2''\<rparr>) = Inr t \<and>
        group t = ''panel'' \<and> gGrabbed t) \<and>
   (\<exists>t. exec popClip pushClip [BeginGroup ''panel'' button_rect, BeginGroup ''list'' button_rect,
                               EndGroup ''list'' button_rect, EndGroup ''panel'' button_rect]
           (initial_state\<lparr>inFrame := True, eGrabbed := ''panel/list/item2''\<rparr>) = Inr t \<and>
        group t = [] \<and> \<not> gGrabbed t)"
  by (simp add: initial_state_def beginGroup_def endGroup_def substr_def substr_from_def
      groupNameSeparator_def button_rect_def SDL_PointInRect_def Let_def)


subsection \<open>Groups\<close>

lemma exec_append:
  "exec popClip pushClip (cs @ ds) s =
     (case exec popClip pushClip cs s of
        Inl e \<Rightarrow> Inl e
      | Inr s' \<Rightarrow> exec popClip pushClip ds s')"
  by (induction cs arbitrary: s) (auto split: sum.splits)

lemma group_beginGroup:
  "group (beginGroup popClip gid r s) =
     (if gid = [] then group s
      else if group s = [] then gid
      else group s @ groupNameSeparator # gid)"
  by (simp add: beginGroup_def Let_def)

lemma endGroup_empty_id:
  "\<exists>s'. endGroup pushClip [] r s = Inr s' \<and> group s' = group s"
  by (simp add: endGroup_def)

lemma endGroup_top_level:
  assumes "gid \<noteq> []" and "group s = gid"
  shows "\<exists>s'. endGroup pushClip gid r s = Inr s' \<and> group s' = []"
  using assms by (simp add: endGroup_def Let_def)

lemma endGroup_inner:
  assumes "gid \<noteq> []" and "group s = g @ groupNameSeparator # gid"
  shows "\<exists>s'. endGroup pushClip gid r s = Inr s' \<and> group s' = g"
  using assms by (simp add: endGroup_def Let_def substr_from_def nth_append)

lemma nested_keeps_group:
  "nested cs \<Longrightarrow> \<exists>s'. exec popClip pushClip cs s = Inr s' \<and> group s' = group s"
proof (induction cs arbitrary: s rule: nested.induct)
  case nested_empty
  show ?case by simp
next
  case (nested_group cs gid r r')
  let ?s1 = "beginGroup popClip gid r s"
  from nested_group.IH [of ?s1] obtain s2
    where inner: "exec popClip pushClip cs ?s1 = Inr s2" and g2: "group s2 = group ?s1"
    by blast
  have "\<exists>s'. endGroup pushClip gid r' s2 = Inr s' \<and> group s' = group s"
  proof (cases "gid = []")
    case True
    with g2 show ?thesis
      using endGroup_empty_id [of pushClip r' s2] by (simp add: group_beginGroup)
  next
    case False
    show ?thesis
    proof (cases "group s = []")
      case True
      with False g2 have "group s2 = gid" by (simp add: group_beginGroup)
      from endGroup_top_level [OF False this] True show ?thesis by simp
    next
      case nonempty: False
      with False g2 have "group s2 = group s @ groupNameSeparator # gid"
        by (simp add: group_beginGroup)
      from endGroup_inner [OF False this] show ?thesis .
    qed
  qed
  then obtain s' where "endGroup pushClip gid r' s2 = Inr s'" and "group s' = group s"
    by blast
  with inner show ?case
    by (simp add: exec_append)
next
  case (nested_seq cs ds)
  from nested_seq.IH(1) [of s] obtain s1
    where "exec popClip pushClip cs s = Inr s1" and "group s1 = group s" by blast
  moreover from nested_seq.IH(2) [of s1] obtain s2
    where "exec popClip pushClip ds s1 = Inr s2" and "group s2 = group s1" by blast
  ultimately show ?case
    by (simp add: exec_append)
qed

text \<open>
  Claim C8. For a matched pair \<^verbatim>\<open>beginGroup(id)\<close>, \<^verbatim>\<open>endGroup(id)\<close> around a properly
  nested sequence of group calls, and for every id, the run fails no assertion and the
  group prefix after the pair is the prefix before it.
\<close>

theorem group_prefix_roundtrip:
  assumes "nested cs"
  shows "\<exists>s'. exec popClip pushClip (BeginGroup gid r # cs @ [EndGroup gid r']) s = Inr s' \<and>
              group s' = group s"
  using nested_keeps_group [OF nested_group [OF assms]] .

theorem group_prefix_roundtrip_witness:
  "nested [BeginGroup ''list'' button_rect, EndGroup ''list'' button_rect] \<and>
   (\<exists>s'. exec no_popClip no_pushClip
            [BeginGroup ''panel'' button_rect, BeginGroup ''list'' button_rect,
             EndGroup ''list'' button_rect, EndGroup ''panel'' button_rect]
            (initial_state\<lparr>inFrame := True, group := ''window''\<rparr>) = Inr s' \<and>
         group s' = ''window'')"
proof -
  have n: "nested [BeginGroup ''list'' button_rect, EndGroup ''list'' button_rect]"
    using nested_group [OF nested_empty, of "''list''" button_rect button_rect] by simp
  from group_prefix_roundtrip [OF n, of no_popClip no_pushClip "''panel''" button_rect
      button_rect "initial_state\<lparr>inFrame := True, group := ''window''\<rparr>"] n
  show ?thesis by (simp add: initial_state_def)
qed


subsection \<open>One grab per frame\<close>

lemma event_keeps:
  "inFrame (event ev s) = inFrame s \<and> eGrabbed (event ev s) = eGrabbed s"
  by (cases ev) (simp_all add: Let_def)

lemma beginGroup_keeps:
  "inFrame (beginGroup popClip gid r s) = inFrame s \<and>
   eGrabbed (beginGroup popClip gid r s) = eGrabbed s"
  by (simp add: beginGroup_def Let_def)

lemma endGroup_keeps:
  "endGroup pushClip gid r s = Inr s' \<Longrightarrow> inFrame s' = inFrame s \<and> eGrabbed s' = eGrabbed s"
  by (auto simp: endGroup_def Let_def split: if_splits)

lemma step_in_frame_keeps:
  assumes "\<not> frameBoundary c" and "step popClip pushClip c s = Inr s'"
    and "inFrame s" and "eGrabbed s \<noteq> []"
  shows "inFrame s' \<and> eGrabbed s' = eGrabbed s"
proof (cases c)
  case (Event ev)
  with assms show ?thesis by (auto simp: event_keeps)
next
  case (CheckMouse wid r)
  with assms(2) obtain a where "checkMouse wid r s = Inr (a, s')"
    by (auto split: sum.splits)
  with assms(4) show ?thesis
    using checkMouse_inFrame checkMouse_keeps_grabbed by blast
next
  case (BeginGroup gid r)
  with assms show ?thesis by (auto simp: beginGroup_keeps)
next
  case (EndGroup gid r)
  with assms show ?thesis by (auto dest: endGroup_keeps)
qed (use assms in simp_all)

lemma exec_in_frame_keeps:
  assumes "\<forall>c \<in> set cs. \<not> frameBoundary c" and "exec popClip pushClip cs s = Inr s'"
    and "inFrame s" and "eGrabbed s \<noteq> []"
  shows "inFrame s' \<and> eGrabbed s' = eGrabbed s"
  using assms
proof (induction cs arbitrary: s)
  case Nil
  then show ?case by simp
next
  case (Cons c cs)
  from Cons.prems(2) obtain s1
    where first: "step popClip pushClip c s = Inr s1"
      and rest: "exec popClip pushClip cs s1 = Inr s'"
    by (auto split: sum.splits)
  from Cons.prems(1) have "\<not> frameBoundary c" by simp
  from step_in_frame_keeps [OF this first Cons.prems(3,4)]
  have s1: "inFrame s1" "eGrabbed s1 = eGrabbed s" by simp_all
  with Cons.prems(4) have "eGrabbed s1 \<noteq> []" by simp
  from Cons.IH [OF _ rest s1(1) this] Cons.prems(1) s1(2) show ?case by simp
qed

lemma qualified_id_suffix:
  assumes "g1 @ c # i1 = g2 @ c # i2" and "c \<notin> set i1" and "c \<notin> set i2"
  shows "i1 = i2"
proof -
  from assms(1) have "rev i1 @ c # rev g1 = rev i2 @ c # rev g2"
    by (metis rev.simps(2) rev_append append_assoc append_Cons append_Nil)
  then have "takeWhile (\<lambda>x. x \<noteq> c) (rev i1 @ c # rev g1)
             = takeWhile (\<lambda>x. x \<noteq> c) (rev i2 @ c # rev g2)"
    by simp
  moreover have "takeWhile (\<lambda>x. x \<noteq> c) (rev i1 @ c # rev g1) = rev i1"
    using assms(2) by (auto simp: takeWhile_tail)
  moreover have "takeWhile (\<lambda>x. x \<noteq> c) (rev i2 @ c # rev g2) = rev i2"
    using assms(3) by (auto simp: takeWhile_tail)
  ultimately show ?thesis by simp
qed

text \<open>
  Claim C2. Within a frame (a run of calls with no frame begin or end), once a query has
  answered \<open>GRAB\<close>, every later query whose fully qualified id differs answers \<open>NONE\<close> and
  changes nothing, whatever its rectangle; a later query that answers \<open>GRAB\<close> has the same
  fully qualified id. Widgets are told apart by the fully qualified id: a later query for a
  different id answers \<open>NONE\<close> when it is made under the same group prefix, or when the
  ids keep the separator reserved (neither contains it). An id that contains the separator
  can name the widget of another id: \<open>b/c\<close> under the prefix \<open>a\<close> and \<open>c\<close> under \<open>a/b\<close>
  are the one widget \<open>a/b/c\<close>.
\<close>

theorem one_grab_per_frame:
  assumes "checkMouse wid1 r1 s1 = Inr (GRAB, s2)"
    and "\<forall>c \<in> set mid. \<not> frameBoundary c"
    and "exec popClip pushClip mid s2 = Inr s3"
  shows "(group s3 @ groupNameSeparator # wid2 \<noteq> group s1 @ groupNameSeparator # wid1 \<longrightarrow>
            checkMouse wid2 r2 s3 = Inr (NONE, s3)) \<and>
         (wid2 \<noteq> wid1 \<and>
          (group s3 = group s1 \<or>
           (groupNameSeparator \<notin> set wid1 \<and> groupNameSeparator \<notin> set wid2)) \<longrightarrow>
            checkMouse wid2 r2 s3 = Inr (NONE, s3)) \<and>
         (\<forall>s4. checkMouse wid2 r2 s3 = Inr (GRAB, s4) \<longrightarrow>
            group s3 @ groupNameSeparator # wid2 = group s1 @ groupNameSeparator # wid1)"
proof -
  let ?q1 = "group s1 @ groupNameSeparator # wid1"
  let ?q2 = "group s3 @ groupNameSeparator # wid2"
  from assms(1) have in2: "inFrame s2" and g2: "eGrabbed s2 = ?q1"
    using checkMouse_inFrame checkMouse_GRAB_grabbed by blast+
  then have "eGrabbed s2 \<noteq> []" by simp
  from exec_in_frame_keeps [OF assms(2,3) in2 this] g2
  have in3: "inFrame s3" and g3: "eGrabbed s3 = ?q1" by simp_all
  have other: "checkMouse wid2 r2 s3 = Inr (NONE, s3)" if "?q2 \<noteq> ?q1"
    using that in3 g3 by (simp add: checkMouse_def isSameGroupId_iff)
  have differ: "?q2 \<noteq> ?q1"
    if "wid2 \<noteq> wid1 \<and>
        (group s3 = group s1 \<or>
         (groupNameSeparator \<notin> set wid1 \<and> groupNameSeparator \<notin> set wid2))"
    using that qualified_id_suffix [of "group s3" groupNameSeparator wid2 "group s1" wid1]
    by auto
  have same: "?q2 = ?q1" if "checkMouse wid2 r2 s3 = Inr (GRAB, s4)" for s4
  proof (rule ccontr)
    assume "?q2 \<noteq> ?q1"
    from other [OF this] that show False by simp
  qed
  from other differ same show ?thesis by blast
qed

theorem one_grab_per_frame_witness:
  "checkMouse ''ok'' button_rect
     (initial_state\<lparr>inFrame := True, mLeftPressed := True, mPos := \<lparr>px = 15, py = 15\<rparr>\<rparr>)
   = Inr (GRAB, initial_state\<lparr>inFrame := True, mLeftPressed := True,
                   mPos := \<lparr>px = 15, py = 15\<rparr>, eGrabbed := ''/ok'', eActive := ''/ok'',
                   gGrabbed := True, gActive := True, mGrabbing := True\<rparr>) \<and>
   exec no_popClip no_pushClip
     [BeginGroup ''panel'' button_rect, CheckMouse ''ok'' button_rect,
      EndGroup ''panel'' button_rect]
     (initial_state\<lparr>inFrame := True, mLeftPressed := True, mPos := \<lparr>px = 15, py = 15\<rparr>,
                    eGrabbed := ''/ok'', eActive := ''/ok'', gGrabbed := True, gActive := True,
                    mGrabbing := True\<rparr>)
   = Inr (initial_state\<lparr>inFrame := True, mLeftPressed := True, mPos := \<lparr>px = 15, py = 15\<rparr>,
                    eGrabbed := ''/ok'', eActive := ''/ok'', mGrabbing := True,
                    mHovering := True\<rparr>) \<and>
   checkMouse ''cancel'' button_rect
     (initial_state\<lparr>inFrame := True, mLeftPressed := True, mPos := \<lparr>px = 15, py = 15\<rparr>,
                    eGrabbed := ''/ok'', eActive := ''/ok'', mGrabbing := True,
                    mHovering := True\<rparr>)
   = Inr (NONE, initial_state\<lparr>inFrame := True, mLeftPressed := True,
                   mPos := \<lparr>px = 15, py = 15\<rparr>, eGrabbed := ''/ok'', eActive := ''/ok'',
                   mGrabbing := True, mHovering := True\<rparr>)"
proof -
  let ?s1 = "initial_state\<lparr>inFrame := True, mLeftPressed := True, mPos := \<lparr>px = 15, py = 15\<rparr>\<rparr>"
  let ?s2 = "initial_state\<lparr>inFrame := True, mLeftPressed := True,
                   mPos := \<lparr>px = 15, py = 15\<rparr>, eGrabbed := ''/ok'', eActive := ''/ok'',
                   gGrabbed := True, gActive := True, mGrabbing := True\<rparr>"
  let ?s3 = "initial_state\<lparr>inFrame := True, mLeftPressed := True, mPos := \<lparr>px = 15, py = 15\<rparr>,
                    eGrabbed := ''/ok'', eActive := ''/ok'', mGrabbing := True,
                    mHovering := True\<rparr>"
  let ?mid = "[BeginGroup ''panel'' button_rect, CheckMouse ''ok'' button_rect,
      EndGroup ''panel'' button_rect]"
  have grab: "checkMouse ''ok'' button_rect ?s1 = Inr (GRAB, ?s2)"
    by (simp add: checkMouse_def initial_state_def button_rect_def SDL_PointInRect_def
        groupNameSeparator_def)
  have frame: "\<forall>c \<in> set ?mid. \<not> frameBoundary c"
    by simp
  have run: "exec no_popClip no_pushClip ?mid ?s2 = Inr ?s3"
    by (simp add: initial_state_def beginGroup_def endGroup_def checkMouse_def isSameGroupId_def
        substr_def substr_from_def groupNameSeparator_def button_rect_def SDL_PointInRect_def
        no_popClip_def no_pushClip_def Let_def)
  from one_grab_per_frame [OF grab frame run, of "''cancel''" button_rect]
  have "checkMouse ''cancel'' button_rect ?s3 = Inr (NONE, ?s3)"
    by (simp add: initial_state_def groupNameSeparator_def)
  with grab run show ?thesis by blast
qed

end
